theory Spec2Isabelle
  imports Complex_Main "HOL-Library.AList"
begin

section \<open>Values exchanged with the API\<close>

text \<open>
  What \<^verbatim>\<open>response.json()\<close> hands to the client: a parsed JSON document as Python sees it.
  \<open>JNull\<close> is Python's \<^verbatim>\<open>None\<close>, which is also what \<^verbatim>\<open>dict.get\<close> returns for a missing
  key. A dictionary is an association list read with \<open>map_of\<close>; a Python dict has one
  entry per key. Numbers are Python's unbounded integers; numbers with a fraction are not
  part of this model.
\<close>

datatype json =
    JNull
  | JBool bool
  | JNum int
  | JStr string
  | JArr "json list"
  | JObj "(string \<times> json) list"

text \<open>
  A \<^verbatim>\<open>requests.Response\<close>: the status code, the raw body (\<^verbatim>\<open>response.text\<close>, here
  \<open>body_text\<close>) and the outcome of \<^verbatim>\<open>response.json()\<close>, which is \<open>None\<close> when the body is
  not valid JSON (the call raises \<^verbatim>\<open>ValueError\<close> then). The model does not parse: the two
  fields are given side by side.
\<close>

record http_response =
  status_code :: int
  body_text :: string
  json_body :: "json option"

text \<open>
  The exceptions of \<^verbatim>\<open>requests.exceptions\<close> that \<^verbatim>\<open>_handle_request_error\<close> tells apart.
  An exception that is both a \<^verbatim>\<open>Timeout\<close> and a \<^verbatim>\<open>ConnectionError\<close> is a \<open>Timeout\<close> here,
  since that test comes first in the source. \<open>OtherRequestException\<close> carries \<^verbatim>\<open>str(e)\<close>.
\<close>

datatype request_exception =
    HTTPError http_response
  | RetryError
  | Timeout
  | ConnectionError
  | OtherRequestException string

text \<open>
  Everything the modelled code can raise. The first three are the library's typed errors
  (they carry their message; the response object they also keep is left out). \<open>ValueError\<close>
  is the failure of \<^verbatim>\<open>response.json()\<close>, \<open>AttributeError\<close> is a method call such as \<^verbatim>\<open>.get\<close>
  on a value that has no such method, and \<open>Exception\<close> is a plain \<^verbatim>\<open>Exception(msg)\<close>.
\<close>

datatype exn =
    AuthenticationError string
  | InvalidRequestError string
  | VideodbError string
  | RequestException request_exception
  | ValueError
  | AttributeError
  | FileNotFoundError
  | OSError
  | Exception string

text \<open>
  What the source imports or inherits from the interpreter and is not part of the three
  files: the two constants \<^verbatim>\<open>Status.processing\<close> and \<^verbatim>\<open>Status.in_progress\<close> of
  \<^verbatim>\<open>videodb._constants\<close>, and Python's \<^verbatim>\<open>str()\<close> of a value that is not a string, which an
  f-string applies to what it interpolates. They are parameters of the model.
\<close>

record externals =
  processing :: string
  in_progress :: string
  str :: "json \<Rightarrow> string"

section \<open>Python primitives\<close>

definition dict_get :: "(string \<times> json) list \<Rightarrow> string \<Rightarrow> json \<Rightarrow> json" where
  "dict_get d k dflt = (case map_of d k of Some v \<Rightarrow> v | None \<Rightarrow> dflt)"

text \<open>\<^verbatim>\<open>x.get(k, dflt)\<close>: only a dict has the method.\<close>

fun get :: "json \<Rightarrow> string \<Rightarrow> json \<Rightarrow> exn + json" where
  "get (JObj d) k dflt = Inr (dict_get d k dflt)"
| "get _ k dflt = Inl AttributeError"

text \<open>Python's truth value of a parsed JSON value.\<close>

fun truthy :: "json \<Rightarrow> bool" where
  "truthy JNull = False"
| "truthy (JBool b) = b"
| "truthy (JNum n) = (n \<noteq> 0)"
| "truthy (JStr s) = (s \<noteq> [])"
| "truthy (JArr xs) = (xs \<noteq> [])"
| "truthy (JObj d) = (d \<noteq> [])"

text \<open>An interpolation \<^verbatim>\<open>{v}\<close> of an f-string: a string is inserted as it is.\<close>

fun fstr :: "externals \<Rightarrow> json \<Rightarrow> string" where
  "fstr X (JStr s) = s"
| "fstr X v = str X v"

text \<open>
  \<^verbatim>\<open>Response.raise_for_status()\<close> of the requests library: an \<^verbatim>\<open>HTTPError\<close> for the client
  and server error codes, nothing for any other code.
\<close>

definition raise_for_status :: "http_response \<Rightarrow> exn option" where
  "raise_for_status r =
     (if 400 \<le> status_code r \<and> status_code r < 600
      then Some (RequestException (HTTPError r)) else None)"

section \<open>The HTTP client\<close>

subsection \<open>The error classifier\<close>

text \<open>
  \<^verbatim>\<open>_handle_request_error\<close> raises on every path; the model returns what it raises. The
  \<^verbatim>\<open>try\<close> around the message extraction catches \<^verbatim>\<open>ValueError\<close> only, so the
  \<open>AttributeError\<close> of \<^verbatim>\<open>.get\<close> on a body that is JSON but not an object leaves the function.
\<close>

definition handle_request_error :: "externals \<Rightarrow> request_exception \<Rightarrow> exn" where
  "handle_request_error X e =
     (case e of
        HTTPError response \<Rightarrow>
          (case (case json_body response of
                   None \<Rightarrow> Inr (JStr (body_text response))
                 | Some body \<Rightarrow> get body ''message'' (JStr ''Unknown error'')) of
             Inl a \<Rightarrow> a
           | Inr error_message \<Rightarrow>
               if status_code response = 401
               then AuthenticationError (''Error: '' @ fstr X error_message)
               else InvalidRequestError (''Invalid request: '' @ fstr X error_message))
      | RetryError \<Rightarrow> InvalidRequestError ''Invalid request: Max retries exceeded''
      | Timeout \<Rightarrow> InvalidRequestError ''Invalid request: Request timed out''
      | ConnectionError \<Rightarrow> InvalidRequestError ''Invalid request: Connection error''
      | OtherRequestException s \<Rightarrow> InvalidRequestError (''Invalid request: '' @ s))"

subsection \<open>Polling\<close>

text \<open>
  The body of \<^verbatim>\<open>_get_output\<close>, run once on the outcome of \<^verbatim>\<open>self.session.get(url)\<close>: the
  request itself may raise, the body may not be JSON, the JSON may not be an object. No
  \<^verbatim>\<open>raise_for_status\<close> is called here, so the status code plays no part.
\<close>

definition get_output_body :: "externals \<Rightarrow> exn + http_response \<Rightarrow> exn + json" where
  "get_output_body X reply =
     (case reply of
        Inl e \<Rightarrow> Inl e
      | Inr r \<Rightarrow>
          (case json_body r of
             None \<Rightarrow> Inl ValueError
           | Some response_json \<Rightarrow>
               (case get response_json ''status'' JNull of
                  Inl e \<Rightarrow> Inl e
                | Inr status \<Rightarrow>
                    if status = JStr (in_progress X) \<or> status = JStr (processing X)
                    then Inl (Exception ''Stuck on processing status'')
                    else (case get response_json ''response'' JNull of
                            Inl e \<Rightarrow> Inl e
                          | Inr inner \<Rightarrow> Inr (if truthy inner then inner else response_json)))))"

definition max_time :: real where
  "max_time = 500"

text \<open>
  \<^verbatim>\<open>@backoff.on_exception(backoff.expo, Exception, max_time=500)\<close> around that body. The
  network and the clock are scripted: each attempt comes with the seconds elapsed since the
  first one, read when the attempt starts, and with the outcome of its GET. An attempt that
  raises is repeated unless the elapsed time read for it has reached the ceiling, in which
  case its exception is raised again. The result is \<open>None\<close> when the script ends before the
  loop does. The second component lists the URLs requested, in order.
\<close>

type_synonym attempt = "real \<times> (exn + http_response)"

fun get_output :: "externals \<Rightarrow> json \<Rightarrow> attempt list \<Rightarrow> (exn + json) option \<times> json list" where
  "get_output X url [] = (None, [])"
| "get_output X url ((elapsed, reply) # rest) =
     (case get_output_body X reply of
        Inr out \<Rightarrow> (Some (Inr out), [url])
      | Inl e \<Rightarrow>
          if max_time \<le> elapsed then (Some (Inl e), [url])
          else (case get_output X url rest of (res, reqs) \<Rightarrow> (res, url # reqs)))"

subsection \<open>The envelope interpreter\<close>

text \<open>
  The two places of \<^verbatim>\<open>_parse_response\<close> that read \<^verbatim>\<open>success\<close>, \<^verbatim>\<open>data\<close> and \<^verbatim>\<open>message\<close>
  (after polling, and for a direct answer) are the same code; it is written once here.
\<close>

definition success_or_raise :: "externals \<Rightarrow> json \<Rightarrow> exn + json" where
  "success_or_raise X response_json =
     (case get response_json ''success'' JNull of
        Inl e \<Rightarrow> Inl e
      | Inr success \<Rightarrow>
          if truthy success then get response_json ''data'' JNull
          else (case get response_json ''message'' JNull of
                  Inl e \<Rightarrow> Inl e
                | Inr message \<Rightarrow> Inl (InvalidRequestError (''Invalid request: '' @ fstr X message))))"

text \<open>The \<^verbatim>\<open>try\<close> block of \<^verbatim>\<open>_parse_response\<close>.\<close>

definition parse_response_try ::
  "externals \<Rightarrow> http_response \<Rightarrow> attempt list \<Rightarrow> (exn + json) option \<times> json list" where
  "parse_response_try X response polls =
     (case json_body response of
        None \<Rightarrow> (Some (Inl ValueError), [])
      | Some response_json \<Rightarrow>
          (case get response_json ''status'' JNull of
             Inl e \<Rightarrow> (Some (Inl e), [])
           | Inr status \<Rightarrow>
               (case get response_json ''request_type'' (JStr ''sync'') of
                  Inl e \<Rightarrow> (Some (Inl e), [])
                | Inr request_type \<Rightarrow>
                    if status = JStr (processing X) \<and> request_type = JStr ''async''
                    then (Some (Inr JNull), [])
                    else if status = JStr (processing X) \<and> request_type = JStr ''sync''
                    then
                      (case get response_json ''data'' JNull of
                         Inl e \<Rightarrow> (Some (Inl e), [])
                       | Inr data \<Rightarrow>
                           (case get data ''output_url'' JNull of
                              Inl e \<Rightarrow> (Some (Inl e), [])
                            | Inr url \<Rightarrow>
                                (case get_output X url polls of
                                   (None, reqs) \<Rightarrow> (None, reqs)
                                 | (Some (Inl e), reqs) \<Rightarrow> (Some (Inl e), reqs)
                                 | (Some (Inr out), reqs) \<Rightarrow> (Some (success_or_raise X out), reqs))))
                    else (Some (success_or_raise X response_json), []))))"

text \<open>\<^verbatim>\<open>_parse_response\<close>: the \<^verbatim>\<open>try\<close> block under its \<^verbatim>\<open>except ValueError\<close>.\<close>

definition parse_response ::
  "externals \<Rightarrow> http_response \<Rightarrow> attempt list \<Rightarrow> (exn + json) option \<times> json list" where
  "parse_response X response polls =
     (case parse_response_try X response polls of
        (Some (Inl ValueError), reqs) \<Rightarrow>
          (Some (Inl (InvalidRequestError (''Invalid request: '' @ body_text response))), reqs)
      | other \<Rightarrow> other)"

subsection \<open>The request executor\<close>

text \<open>
  \<^verbatim>\<open>_make_request\<close>. The verb methods differ in the session method they pass and in whether
  a body is attached; \<open>sent\<close> is the outcome of that method call (after the transport's own
  retries): an exception or a response. \<^verbatim>\<open>except RequestException\<close> hands the exception to
  the classifier; any other exception leaves the call as it is.
\<close>

definition except_RequestException :: "externals \<Rightarrow> exn \<Rightarrow> exn" where
  "except_RequestException X e =
     (case e of RequestException r \<Rightarrow> handle_request_error X r | _ \<Rightarrow> e)"

definition make_request ::
  "externals \<Rightarrow> exn + http_response \<Rightarrow> attempt list \<Rightarrow> (exn + json) option \<times> json list" where
  "make_request X sent polls =
     (case sent of
        Inl e \<Rightarrow> (Some (Inl (except_RequestException X e)), [])
      | Inr response \<Rightarrow>
          (case raise_for_status response of
             Some e \<Rightarrow> (Some (Inl (except_RequestException X e)), [])
           | None \<Rightarrow>
               (case parse_response X response polls of
                  (Some (Inl e), reqs) \<Rightarrow> (Some (Inl (except_RequestException X e)), reqs)
                | other \<Rightarrow> other)))"

section \<open>The upload helper\<close>

text \<open>
  Constants of \<^verbatim>\<open>videodb._constants.ApiPath\<close>, which is not among the three files, and the
  module globals of \<^verbatim>\<open>_upload.py\<close> that are read from the environment when it is loaded.
\<close>

record constants =
  ApiPath_collection :: string
  ApiPath_upload_url :: string
  ApiPath_upload :: string
  STREAMING_API :: string
  SEGMENT_DURATION :: json
  SEGMENT_TYPE :: string

record connection =
  collection_id :: string
  user_id :: string

text \<open>
  The outcomes of the calls \<^verbatim>\<open>upload\<close> makes, in the order of the source:
  \<^verbatim>\<open>_connection.get\<close>, \<^verbatim>\<open>open(file_path, "rb")\<close> (\<open>None\<close> when the file opens),
  \<^verbatim>\<open>requests.post(upload_url, files=files)\<close>, \<^verbatim>\<open>_connection.post\<close> and the
  \<^verbatim>\<open>requests.post\<close> to the streaming service.
\<close>

record upload_script =
  upload_url_reply :: "exn + json"
  opened :: "exn option"
  file_post_reply :: "exn + http_response"
  upload_reply :: "exn + json"
  streaming_reply :: "exn + http_response"

text \<open>The requests \<^verbatim>\<open>upload\<close> issues, with the arguments it builds.\<close>

datatype request =
    ConnectionGet string "(string \<times> json) list"
  | RequestsPostFiles json string
  | ConnectionPost string json
  | RequestsPostJson string json

text \<open>The truth value of an optional string argument: \<^verbatim>\<open>None\<close> and \<^verbatim>\<open>""\<close> are false.\<close>

fun truthy_opt :: "string option \<Rightarrow> bool" where
  "truthy_opt None = False"
| "truthy_opt (Some s) = (s \<noteq> [])"

fun json_of :: "string option \<Rightarrow> json" where
  "json_of None = JNull"
| "json_of (Some s) = JStr s"

text \<open>\<^verbatim>\<open>file_path.split("/")[-1].split(".")[0]\<close>\<close>

definition default_name :: "string \<Rightarrow> string" where
  "default_name file_path =
     takeWhile (\<lambda>c. c \<noteq> CHR ''.'') (rev (takeWhile (\<lambda>c. c \<noteq> CHR ''/'') (rev file_path)))"

text \<open>The two \<^verbatim>\<open>except\<close> clauses of the first \<^verbatim>\<open>try\<close>, and the one of the second.\<close>

definition except_upload :: "exn \<Rightarrow> exn" where
  "except_upload e =
     (case e of
        FileNotFoundError \<Rightarrow> VideodbError ''File not found''
      | RequestException (HTTPError r) \<Rightarrow> VideodbError ''Error while uploading file''
      | _ \<Rightarrow> e)"

definition except_HTTPError :: "exn \<Rightarrow> exn" where
  "except_HTTPError e =
     (case e of
        RequestException (HTTPError r) \<Rightarrow> VideodbError ''Error while uploading file''
      | _ \<Rightarrow> e)"

text \<open>
  The \<^verbatim>\<open>if file_path:\<close> block, before its \<^verbatim>\<open>except\<close> clauses: it yields the new \<^verbatim>\<open>url\<close>
  and \<^verbatim>\<open>name\<close>.
\<close>

definition upload_file ::
  "constants \<Rightarrow> connection \<Rightarrow> upload_script \<Rightarrow> string \<Rightarrow> string option
     \<Rightarrow> (exn + json \<times> string) \<times> request list" where
  "upload_file K conn W file_path name =
     (let name = (case name of
                    None \<Rightarrow> default_name file_path
                  | Some n \<Rightarrow> if n = [] then default_name file_path else n);
          asked = [ConnectionGet
                     (ApiPath_collection K @ ''/'' @ collection_id conn @ ''/'' @ ApiPath_upload_url K)
                     [(''name'', JStr name)]]
      in case upload_url_reply W of
           Inl e \<Rightarrow> (Inl e, asked)
         | Inr upload_url_data \<Rightarrow>
             (case get upload_url_data ''upload_url'' JNull of
                Inl e \<Rightarrow> (Inl e, asked)
              | Inr upload_url \<Rightarrow>
                  (case opened W of
                     Some e \<Rightarrow> (Inl e, asked)
                   | None \<Rightarrow>
                       (case file_post_reply W of
                          Inl e \<Rightarrow> (Inl e, asked @ [RequestsPostFiles upload_url name])
                        | Inr response \<Rightarrow>
                            (case raise_for_status response of
                               Some e \<Rightarrow> (Inl e, asked @ [RequestsPostFiles upload_url name])
                             | None \<Rightarrow>
                                 (Inr (upload_url, name),
                                  asked @ [RequestsPostFiles upload_url name]))))))"

text \<open>
  The block marked as temporary test code for streaming, before its \<^verbatim>\<open>except\<close> clause.
  \<^verbatim>\<open>upload_data.get\<close> needs a dict, and \<^verbatim>\<open>media_id.startswith\<close> a string.
\<close>

definition upload_streaming ::
  "constants \<Rightarrow> connection \<Rightarrow> upload_script \<Rightarrow> json \<Rightarrow> json \<Rightarrow> (exn + json) \<times> request list" where
  "upload_streaming K conn W url upload_data =
     (case upload_data of
        JObj d \<Rightarrow>
          (case dict_get d ''id'' (JStr []) of
             JStr media_id \<Rightarrow>
               if take 2 media_id = ''m-'' then
                 (let asked = [RequestsPostJson (STREAMING_API K @ ''/upload'')
                                 (JObj [(''url'', url), (''media_id'', JStr media_id),
                                        (''user_id'', JStr (user_id conn)),
                                        (''segment_duration'', SEGMENT_DURATION K),
                                        (''segment_type'', JStr (SEGMENT_TYPE K))])]
                  in case streaming_reply W of
                       Inl e \<Rightarrow> (Inl e, asked)
                     | Inr streaming_data \<Rightarrow>
                         (case raise_for_status streaming_data of
                            Some e \<Rightarrow> (Inl e, asked)
                          | None \<Rightarrow>
                              (case json_body streaming_data of
                                 None \<Rightarrow> (Inl ValueError, asked)
                               | Some streaming_json \<Rightarrow>
                                   (case get streaming_json ''stream_url'' JNull of
                                      Inl e \<Rightarrow> (Inl e, asked)
                                    | Inr stream_url \<Rightarrow>
                                        (Inr (JObj (AList.update ''stream_url'' stream_url d)),
                                         asked)))))
               else (Inr upload_data, [])
           | _ \<Rightarrow> (Inl AttributeError, []))
      | _ \<Rightarrow> (Inl AttributeError, []))"

text \<open>
  \<^verbatim>\<open>upload\<close>: the raised exception or the returned dictionary, and the requests issued on
  the way, in order.
\<close>

definition upload ::
  "constants \<Rightarrow> connection \<Rightarrow> upload_script \<Rightarrow> string option \<Rightarrow> string option \<Rightarrow> string option
     \<Rightarrow> string option \<Rightarrow> string option \<Rightarrow> string option \<Rightarrow> (exn + json) \<times> request list" where
  "upload K conn W file_path url media_type name description callback_url =
     (if \<not> truthy_opt file_path \<and> \<not> truthy_opt url
      then (Inl (VideodbError ''Either file_path or url is required''), [])
      else if truthy_opt file_path \<and> truthy_opt url
      then (Inl (VideodbError ''Only one of file_path or url is allowed''), [])
      else
        (case (case file_path of
                 None \<Rightarrow> (Inr (json_of url, name), [])
               | Some path \<Rightarrow>
                   if path = [] then (Inr (json_of url, name), [])
                   else (case upload_file K conn W path name of
                           (Inl e, asked) \<Rightarrow> (Inl (except_upload e), asked)
                         | (Inr (u, n), asked) \<Rightarrow> (Inr (u, Some n), asked))) of
           (Inl e, asked) \<Rightarrow> (Inl e, asked)
         | (Inr (url, name), asked) \<Rightarrow>
             (let posted = asked @
                    [ConnectionPost
                       (ApiPath_collection K @ ''/'' @ collection_id conn @ ''/'' @ ApiPath_upload K)
                       (JObj [(''url'', url), (''name'', json_of name),
                              (''description'', json_of description),
                              (''callback_url'', json_of callback_url),
                              (''media_type'', json_of media_type)])]
              in case upload_reply W of
                   Inl e \<Rightarrow> (Inl e, posted)
                 | Inr upload_data \<Rightarrow>
                     (case upload_streaming K conn W url upload_data of
                        (Inl e, asked') \<Rightarrow> (Inl (except_HTTPError e), posted @ asked')
                      | (Inr r, asked') \<Rightarrow> (Inr r, posted @ asked')))))"

section \<open>Notions used in the statements\<close>

text \<open>The typed errors of the library.\<close>

fun typed_error :: "exn \<Rightarrow> bool" where
  "typed_error (AuthenticationError m) = True"
| "typed_error (InvalidRequestError m) = True"
| "typed_error (VideodbError m) = True"
| "typed_error e = False"

text \<open>
  The error class and prefix that \<^verbatim>\<open>_handle_request_error\<close> chooses from the status code,
  around an extracted message.
\<close>

definition http_error :: "http_response \<Rightarrow> string \<Rightarrow> exn" where
  "http_error r m =
     (if status_code r = 401 then AuthenticationError (''Error: '' @ m)
      else InvalidRequestError (''Invalid request: '' @ m))"

text \<open>A polling reply that is a JSON object reporting one of the two pending statuses.\<close>

definition reports_pending :: "externals \<Rightarrow> exn + http_response \<Rightarrow> bool" where
  "reports_pending X reply =
     (case reply of
        Inl e \<Rightarrow> False
      | Inr r \<Rightarrow>
          (case json_body r of
             Some (JObj b) \<Rightarrow>
               dict_get b ''status'' JNull = JStr (in_progress X) \<or>
               dict_get b ''status'' JNull = JStr (processing X)
           | _ \<Rightarrow> False))"

section \<open>Example inputs\<close>

text \<open>
  The status constants spelled as the specification's enumeration spells them. No example
  below formats a value other than a string, so \<open>str\<close> is only given its value on \<^verbatim>\<open>None\<close>.
\<close>

definition X0 :: externals where
  "X0 = \<lparr>processing = ''processing'', in_progress = ''in_progress'', str = (\<lambda>v. ''None'')\<rparr>"

text \<open>A response with a JSON body; its raw text is not read on any path that parses it.\<close>

definition answer :: "int \<Rightarrow> json \<Rightarrow> http_response" where
  "answer code j = \<lparr>status_code = code, body_text = [], json_body = Some j\<rparr>"

definition sync_envelope :: "(string \<times> json) list" where
  "sync_envelope =
     [(''success'', JBool True), (''status'', JStr ''processing''),
      (''data'', JObj [(''output_url'', JStr ''https://api.example/async/42'')])]"

definition async_envelope :: "(string \<times> json) list" where
  "async_envelope =
     [(''success'', JBool True), (''status'', JStr ''processing''), (''request_type'', JStr ''async''),
      (''data'', JObj [(''output_url'', JStr ''https://api.example/async/42'')])]"

definition batch_envelope :: "(string \<times> json) list" where
  "batch_envelope =
     [(''success'', JBool False), (''status'', JStr ''processing''), (''request_type'', JStr ''batch''),
      (''message'', JStr ''queued'')]"

definition done_body :: "(string \<times> json) list" where
  "done_body =
     [(''status'', JStr ''done''), (''success'', JBool True), (''data'', JObj [(''id'', JNum 1)])]"

definition empty_success :: "(string \<times> json) list" where
  "empty_success = [(''success'', JBool True), (''status'', JStr ''done'')]"

definition failed_body :: "(string \<times> json) list" where
  "failed_body =
     [(''status'', JStr ''failed''), (''success'', JBool False), (''message'', JStr ''no audio track'')]"

definition wrapped_success :: "(string \<times> json) list" where
  "wrapped_success =
     [(''status'', JStr ''done''), (''success'', JBool True), (''data'', JObj [(''id'', JNum 1)]),
      (''response'', JObj [(''success'', JBool True), (''data'', JObj [(''id'', JNum 2)])])]"

definition wrapped_failure :: "(string \<times> json) list" where
  "wrapped_failure =
     [(''status'', JStr ''done''), (''success'', JBool False), (''message'', JStr ''no audio track''),
      (''response'', JObj [(''success'', JBool True), (''data'', JObj [(''id'', JNum 2)])])]"

definition pending_reply :: "exn + http_response" where
  "pending_reply = Inr (answer 200 (JObj [(''status'', JStr ''in_progress'')]))"

definition done_reply :: "exn + http_response" where
  "done_reply = Inr (answer 200 (JObj done_body))"

definition unauthorized :: http_response where
  \<open>unauthorized =
     \<lparr>status_code = 401, body_text = ''{"message": "Invalid API key"}'',
      json_body = Some (JObj [(''message'', JStr ''Invalid API key'')])\<rparr>\<close>

definition not_found :: http_response where
  \<open>not_found =
     \<lparr>status_code = 404, body_text = ''{"error": "no such video"}'',
      json_body = Some (JObj [(''error'', JStr ''no such video'')])\<rparr>\<close>

definition bad_gateway :: http_response where
  "bad_gateway = \<lparr>status_code = 502, body_text = ''Bad Gateway'', json_body = None\<rparr>"

definition multiple_choices :: http_response where
  "multiple_choices = answer 300 (JObj done_body)"

definition K0 :: constants where
  "K0 = \<lparr>ApiPath_collection = ''collection'', ApiPath_upload_url = ''upload_url'',
          ApiPath_upload = ''upload'', STREAMING_API = ''https://stream.example'',
          SEGMENT_DURATION = JNum 1, SEGMENT_TYPE = ''fmp4''\<rparr>"

definition conn0 :: connection where
  "conn0 = \<lparr>collection_id = ''default'', user_id = ''u-1''\<rparr>"

definition W0 :: upload_script where
  "W0 = \<lparr>upload_url_reply = Inr (JObj [(''upload_url'', JStr ''https://store.example/put'')]),
          opened = None,
          file_post_reply = Inr \<lparr>status_code = 200, body_text = [], json_body = None\<rparr>,
          upload_reply = Inr (JObj [(''id'', JStr ''v-1'')]),
          streaming_reply = Inl (RequestException ConnectionError)\<rparr>"

section \<open>Shared lemmas\<close>

lemma parse_response_keeps:
  "parse_response_try X r polls = (res, reqs) \<Longrightarrow> res \<noteq> Some (Inl ValueError) \<Longrightarrow>
   parse_response X r polls = (res, reqs)"
  by (auto simp: parse_response_def split: option.splits sum.splits exn.splits)

lemma make_request_keeps:
  "raise_for_status r = None \<Longrightarrow> parse_response X r polls = (Some res, reqs) \<Longrightarrow>
   \<forall>e. res \<noteq> Inl (RequestException e) \<Longrightarrow>
   make_request X (Inr r) polls = (Some res, reqs)"
  by (auto simp: make_request_def except_RequestException_def split: sum.splits exn.splits)

lemma parse_response_async:
  assumes "json_body response = Some (JObj env)"
    and "dict_get env ''status'' JNull = JStr (processing X)"
    and "dict_get env ''request_type'' (JStr ''sync'') = JStr ''async''"
  shows "parse_response X response polls = (Some (Inr JNull), [])"
proof -
  have "parse_response_try X response polls = (Some (Inr JNull), [])"
    using assms by (simp add: parse_response_try_def)
  then show ?thesis by (rule parse_response_keeps) simp
qed

lemma success_or_raise_object:
  "success_or_raise X (JObj env) =
     (if truthy (dict_get env ''success'' JNull) then Inr (dict_get env ''data'' JNull)
      else Inl (InvalidRequestError (''Invalid request: '' @ fstr X (dict_get env ''message'' JNull))))"
  by (simp add: success_or_raise_def)

lemma success_or_raise_no_ValueError: "success_or_raise X j \<noteq> Inl ValueError"
  by (cases j) (simp_all add: success_or_raise_def)

lemma success_or_raise_no_RequestException: "success_or_raise X j \<noteq> Inl (RequestException e)"
  by (cases j) (simp_all add: success_or_raise_def)

lemma parse_response_direct:
  assumes "json_body response = Some (JObj env)"
    and "dict_get env ''status'' JNull \<noteq> JStr (processing X) \<or>
         (dict_get env ''request_type'' (JStr ''sync'') \<noteq> JStr ''sync'' \<and>
          dict_get env ''request_type'' (JStr ''sync'') \<noteq> JStr ''async'')"
  shows "parse_response X response polls = (Some (success_or_raise X (JObj env)), [])"
proof -
  have "parse_response_try X response polls = (Some (success_or_raise X (JObj env)), [])"
    using assms by (auto simp: parse_response_try_def)
  then show ?thesis
    by (rule parse_response_keeps) (simp add: success_or_raise_no_ValueError)
qed

lemma get_output_body_pending:
  "reports_pending X reply \<Longrightarrow>
   get_output_body X reply = Inl (Exception ''Stuck on processing status'')"
  by (auto simp: reports_pending_def get_output_body_def
           split: sum.splits option.splits json.splits)

lemma get_output_body_terminal:
  assumes "json_body tr = Some (JObj tb)"
    and "dict_get tb ''status'' JNull \<noteq> JStr (in_progress X)"
    and "dict_get tb ''status'' JNull \<noteq> JStr (processing X)"
  shows "get_output_body X (Inr tr) =
           Inr (if truthy (dict_get tb ''response'' JNull)
                then dict_get tb ''response'' JNull else JObj tb)"
  using assms by (simp add: get_output_body_def)

lemma get_output_retries:
  assumes "\<forall>a \<in> set early. fst a < max_time \<and> reports_pending X (snd a)"
  shows "get_output X url (early @ rest) =
           (case get_output X url rest of
              (res, reqs) \<Rightarrow> (res, replicate (length early) url @ reqs))"
  using assms
proof (induction early)
  case Nil
  then show ?case by simp
next
  case (Cons a early)
  obtain t reply where a: "a = (t, reply)" by (cases a)
  from Cons.prems a have "t < max_time" and "reports_pending X reply" by simp_all
  then have "get_output X url ((a # early) @ rest) =
               (case get_output X url (early @ rest) of (res, reqs) \<Rightarrow> (res, url # reqs))"
    by (simp add: a get_output_body_pending)
  also have "get_output X url (early @ rest) =
               (case get_output X url rest of
                  (res, reqs) \<Rightarrow> (res, replicate (length early) url @ reqs))"
    using Cons by simp
  finally show ?case by (simp split: prod.splits)
qed

lemma get_output_terminal:
  assumes "\<forall>a \<in> set early. fst a < max_time \<and> reports_pending X (snd a)"
    and "get_output_body X reply = Inr out"
  shows "get_output X url (early @ (t, reply) # rest) =
           (Some (Inr out), replicate (Suc (length early)) url)"
  using get_output_retries [OF assms(1), of url "(t, reply) # rest"] assms(2)
  by (simp add: replicate_append_same)

lemma get_output_ceiling:
  assumes "\<forall>a \<in> set early. fst a < max_time \<and> reports_pending X (snd a)"
    and "max_time \<le> t" and "reports_pending X reply"
  shows "get_output X url (early @ (t, reply) # rest) =
           (Some (Inl (Exception ''Stuck on processing status'')),
            replicate (Suc (length early)) url)"
  using get_output_retries [OF assms(1), of url "(t, reply) # rest"] assms(2,3)
  by (simp add: replicate_append_same get_output_body_pending)

lemma parse_response_sync:
  assumes "json_body response = Some (JObj env)"
    and "dict_get env ''status'' JNull = JStr (processing X)"
    and "dict_get env ''request_type'' (JStr ''sync'') = JStr ''sync''"
    and "dict_get env ''data'' JNull = JObj d"
    and "dict_get d ''output_url'' JNull = U"
    and "get_output X U polls = (Some res, reqs)"
    and "res \<noteq> Inl ValueError"
  shows "parse_response X response polls =
           (Some (case res of Inl e \<Rightarrow> Inl e | Inr out \<Rightarrow> success_or_raise X out), reqs)"
proof -
  have "parse_response_try X response polls =
          (Some (case res of Inl e \<Rightarrow> Inl e | Inr out \<Rightarrow> success_or_raise X out), reqs)"
    using assms(1-6) by (simp add: parse_response_try_def split: sum.splits)
  then show ?thesis
    using assms(7)
    by (intro parse_response_keeps) (auto simp: success_or_raise_no_ValueError split: sum.splits)
qed

lemma make_request_http_error:
  assumes "400 \<le> status_code r" and "status_code r < 600"
  shows "make_request X (Inr r) polls = (Some (Inl (handle_request_error X (HTTPError r))), [])"
  using assms by (simp add: make_request_def raise_for_status_def except_RequestException_def)

section \<open>Properties\<close>

subsection \<open>Polling to completion\<close>

text \<open>
  C1 (as amended). A response whose envelope has status \<open>processing\<close>, request type \<open>sync\<close>
  (given or by default) and \<open>data.output_url = U\<close> makes the client poll: while the replies are
  JSON objects reporting \<open>in_progress\<close> or \<open>processing\<close>, each read before the ceiling, it
  issues one GET to \<open>U\<close> after another, and it stops at the first reply whose status is
  neither. The envelope it then reads is that reply's \<open>response\<close> field when this is truthy,
  and the reply itself otherwise; when that envelope is an object whose \<open>success\<close> is truthy
  (for a boolean: true), the call returns its \<open>data\<close>. Exactly one GET per reply was issued,
  all to \<open>U\<close>.
\<close>

theorem polling_returns_data:
  assumes "json_body response = Some (JObj env)"
    and "dict_get env ''status'' JNull = JStr (processing X)"
    and "dict_get env ''request_type'' (JStr ''sync'') = JStr ''sync''"
    and "dict_get env ''data'' JNull = JObj d"
    and "dict_get d ''output_url'' JNull = U"
    and "\<forall>a \<in> set early. fst a < max_time \<and> reports_pending X (snd a)"
    and "json_body tr = Some (JObj tb)"
    and "dict_get tb ''status'' JNull \<noteq> JStr (in_progress X)"
    and "dict_get tb ''status'' JNull \<noteq> JStr (processing X)"
    and "(if truthy (dict_get tb ''response'' JNull)
          then dict_get tb ''response'' JNull else JObj tb) = JObj eff"
    and "truthy (dict_get eff ''success'' JNull)"
    and "raise_for_status response = None"
  shows "make_request X (Inr response) (early @ (t, Inr tr) # rest) =
           (Some (Inr (dict_get eff ''data'' JNull)), replicate (Suc (length early)) U)"
proof -
  have out: "get_output_body X (Inr tr) = Inr (JObj eff)"
    using get_output_body_terminal [OF assms(7-9)] assms(10) by simp
  have "get_output X U (early @ (t, Inr tr) # rest) =
          (Some (Inr (JObj eff)), replicate (Suc (length early)) U)"
    by (rule get_output_terminal [OF assms(6) out])
  from parse_response_sync [OF assms(1-5) this]
  have "parse_response X response (early @ (t, Inr tr) # rest) =
          (Some (Inr (dict_get eff ''data'' JNull)), replicate (Suc (length early)) U)"
    using assms(11) by (simp add: success_or_raise_object)
  from make_request_keeps [OF assms(12) this] show ?thesis by simp
qed

theorem polling_returns_data_witness:
  "json_body (answer 200 (JObj sync_envelope)) = Some (JObj sync_envelope) \<and>
   dict_get sync_envelope ''status'' JNull = JStr (processing X0) \<and>
   dict_get sync_envelope ''request_type'' (JStr ''sync'') = JStr ''sync'' \<and>
   dict_get sync_envelope ''data'' JNull =
     JObj [(''output_url'', JStr ''https://api.example/async/42'')] \<and>
   0 < max_time \<and> 3 < max_time \<and> reports_pending X0 pending_reply \<and>
   truthy (dict_get wrapped_success ''response'' JNull) \<and>
   raise_for_status (answer 200 (JObj sync_envelope)) = None \<and>
   make_request X0 (Inr (answer 200 (JObj sync_envelope)))
     [(0, pending_reply), (3, pending_reply), (7, Inr (answer 200 (JObj wrapped_success)))] =
     (Some (Inr (JObj [(''id'', JNum 2)])), replicate 3 (JStr ''https://api.example/async/42''))"
  using polling_returns_data
    [of "answer 200 (JObj sync_envelope)" sync_envelope X0
        "[(''output_url'', JStr ''https://api.example/async/42'')]"
        "JStr ''https://api.example/async/42''"
        "[(0, pending_reply), (3, pending_reply)]"
        "answer 200 (JObj wrapped_success)" wrapped_success
        "[(''success'', JBool True), (''data'', JObj [(''id'', JNum 2)])]" 7 "[]"]
  by (simp add: answer_def sync_envelope_def X0_def dict_get_def max_time_def pending_reply_def
        reports_pending_def wrapped_success_def raise_for_status_def numeral_3_eq_3)

text \<open>
  The claim as the specification words it reads \<open>success\<close> and \<open>data\<close> from the terminal reply
  itself. Here that reply has status \<open>done\<close>, \<open>success = true\<close> and \<open>data = {id: 1}\<close>, and also a
  \<open>response\<close> field; the call returns the \<open>data\<close> of that field, \<open>{id: 2}\<close>.
\<close>

theorem polling_terminal_data_counterexample:
  "dict_get wrapped_success ''status'' JNull = JStr ''done'' \<and>
   dict_get wrapped_success ''success'' JNull = JBool True \<and>
   dict_get wrapped_success ''data'' JNull = JObj [(''id'', JNum 1)] \<and>
   make_request X0 (Inr (answer 200 (JObj sync_envelope)))
     [(0, pending_reply), (7, Inr (answer 200 (JObj wrapped_success)))] =
     (Some (Inr (JObj [(''id'', JNum 2)])),
      [JStr ''https://api.example/async/42'', JStr ''https://api.example/async/42''])"
  by (simp add: make_request_def parse_response_def parse_response_try_def success_or_raise_def
        get_output_body_def raise_for_status_def except_RequestException_def
        answer_def sync_envelope_def X0_def dict_get_def max_time_def pending_reply_def
        wrapped_success_def)

subsection \<open>Responses with an error status\<close>

text \<open>
  C2 (as amended). For every response with a status code from 400 to 599 the call raises
  and never returns a value, and issues no polling request. When the body is a JSON object
  or is not valid JSON, the error raised is an \<open>AuthenticationError\<close> if the code is 401 and an
  \<open>InvalidRequestError\<close> for every other code.
\<close>

theorem error_status_raises:
  assumes "400 \<le> status_code r" and "status_code r < 600"
  shows "(\<exists>e. make_request X (Inr r) polls = (Some (Inl e), [])) \<and>
         (json_body r = None \<or> (\<exists>d. json_body r = Some (JObj d)) \<longrightarrow>
            (\<exists>m. make_request X (Inr r) polls =
               (Some (Inl (if status_code r = 401 then AuthenticationError m
                           else InvalidRequestError m)), [])))"
proof -
  have raised: "make_request X (Inr r) polls =
                  (Some (Inl (handle_request_error X (HTTPError r))), [])"
    by (rule make_request_http_error [OF assms])
  have "\<exists>m. handle_request_error X (HTTPError r) =
              (if status_code r = 401 then AuthenticationError m else InvalidRequestError m)"
    if "json_body r = None \<or> (\<exists>d. json_body r = Some (JObj d))"
  proof -
    from that obtain v where
      "(case json_body r of
          None \<Rightarrow> Inr (JStr (body_text r))
        | Some body \<Rightarrow> get body ''message'' (JStr ''Unknown error'')) = Inr v"
      by auto
    then have "handle_request_error X (HTTPError r) =
                 (if status_code r = 401 then AuthenticationError (''Error: '' @ fstr X v)
                  else InvalidRequestError (''Invalid request: '' @ fstr X v))"
      by (simp add: handle_request_error_def)
    then show ?thesis
      by (cases "status_code r = 401") (simp_all del: append.simps)
  qed
  with raised show ?thesis by auto
qed

theorem error_status_raises_witness:
  "400 \<le> status_code unauthorized \<and> status_code unauthorized < 600 \<and>
   400 \<le> status_code bad_gateway \<and> status_code bad_gateway < 600 \<and>
   (\<exists>d. json_body unauthorized = Some (JObj d)) \<and> json_body bad_gateway = None \<and>
   (\<exists>m. make_request X0 (Inr unauthorized) [] = (Some (Inl (AuthenticationError m)), [])) \<and>
   (\<exists>m. make_request X0 (Inr bad_gateway) [] = (Some (Inl (InvalidRequestError m)), []))"
  using error_status_raises [of unauthorized X0 "[]"] error_status_raises [of bad_gateway X0 "[]"]
  by (simp add: unauthorized_def bad_gateway_def)

text \<open>
  A status code outside 200..299 that \<^verbatim>\<open>raise_for_status\<close> lets through: the body of a 300
  response is interpreted as an envelope, and the call returns its \<open>data\<close>.
\<close>

theorem other_status_counterexample:
  "\<not> (200 \<le> status_code multiple_choices \<and> status_code multiple_choices < 300) \<and>
   make_request X0 (Inr multiple_choices) [] = (Some (Inr (JObj [(''id'', JNum 1)])), [])"
  by (simp add: make_request_def parse_response_def parse_response_try_def success_or_raise_def
        raise_for_status_def multiple_choices_def answer_def done_body_def X0_def dict_get_def)

subsection \<open>Polling up to the ceiling\<close>

text \<open>
  C3 (as amended). If every polling reply reports a pending status, up to and including the
  first attempt for which 500 seconds or more have elapsed, the call does not return a
  value: it raises, to its caller, the plain \<^verbatim>\<open>Exception("Stuck on processing status")\<close>
  of the last attempt, having issued one GET to \<open>U\<close> per attempt. Later replies are not
  requested.
\<close>

theorem polling_ceiling_raises:
  assumes "json_body response = Some (JObj env)"
    and "dict_get env ''status'' JNull = JStr (processing X)"
    and "dict_get env ''request_type'' (JStr ''sync'') = JStr ''sync''"
    and "dict_get env ''data'' JNull = JObj d"
    and "dict_get d ''output_url'' JNull = U"
    and "\<forall>a \<in> set early. fst a < max_time \<and> reports_pending X (snd a)"
    and "max_time \<le> t"
    and "reports_pending X reply"
    and "raise_for_status response = None"
  shows "make_request X (Inr response) (early @ (t, reply) # rest) =
           (Some (Inl (Exception ''Stuck on processing status'')),
            replicate (Suc (length early)) U)"
proof -
  have "get_output X U (early @ (t, reply) # rest) =
          (Some (Inl (Exception ''Stuck on processing status'')),
           replicate (Suc (length early)) U)"
    by (rule get_output_ceiling [OF assms(6-8)])
  from parse_response_sync [OF assms(1-5) this]
  have "parse_response X response (early @ (t, reply) # rest) =
          (Some (Inl (Exception ''Stuck on processing status'')),
           replicate (Suc (length early)) U)"
    by simp
  from make_request_keeps [OF assms(9) this] show ?thesis by simp
qed

theorem polling_ceiling_raises_witness:
  "json_body (answer 200 (JObj sync_envelope)) = Some (JObj sync_envelope) \<and>
   dict_get sync_envelope ''status'' JNull = JStr (processing X0) \<and>
   dict_get sync_envelope ''request_type'' (JStr ''sync'') = JStr ''sync'' \<and>
   0 < max_time \<and> 240 < max_time \<and> max_time \<le> 500 \<and> reports_pending X0 pending_reply \<and>
   raise_for_status (answer 200 (JObj sync_envelope)) = None \<and>
   make_request X0 (Inr (answer 200 (JObj sync_envelope)))
     [(0, pending_reply), (240, pending_reply), (500, pending_reply), (501, done_reply)] =
     (Some (Inl (Exception ''Stuck on processing status'')),
      replicate 3 (JStr ''https://api.example/async/42''))"
  using polling_ceiling_raises
    [of "answer 200 (JObj sync_envelope)" sync_envelope X0
        "[(''output_url'', JStr ''https://api.example/async/42'')]"
        "JStr ''https://api.example/async/42''"
        "[(0, pending_reply), (240, pending_reply)]" 500 pending_reply "[(501, done_reply)]"]
  by (simp add: answer_def sync_envelope_def X0_def dict_get_def max_time_def pending_reply_def
        reports_pending_def raise_for_status_def numeral_3_eq_3)

text \<open>
  The error raised at the ceiling is not one of the typed errors: neither
  \<^verbatim>\<open>_parse_response\<close> nor \<^verbatim>\<open>_make_request\<close> catches a plain exception.
\<close>

theorem polling_ceiling_counterexample:
  "make_request X0 (Inr (answer 200 (JObj sync_envelope)))
     [(0, pending_reply), (500, pending_reply)] =
     (Some (Inl (Exception ''Stuck on processing status'')),
      [JStr ''https://api.example/async/42'', JStr ''https://api.example/async/42'']) \<and>
   \<not> typed_error (Exception ''Stuck on processing status'')"
  by (simp add: make_request_def parse_response_def parse_response_try_def
        get_output_body_def raise_for_status_def except_RequestException_def
        answer_def sync_envelope_def X0_def dict_get_def max_time_def pending_reply_def)

subsection \<open>The message of an error response\<close>

text \<open>
  C4 (as amended). For every response with a status code from 400 to 599, the error raised
  carries the prefix of its class followed by: the \<open>message\<close> field of the body when the body
  is a JSON object that has one (the text itself when the field is a string); the string
  \<open>Unknown error\<close> when the body is a JSON object without a \<open>message\<close> field; the raw body
  text when the body is not valid JSON.
\<close>

theorem error_message_extraction:
  assumes "400 \<le> status_code r" and "status_code r < 600"
  shows "(\<forall>d m. json_body r = Some (JObj d) \<and> map_of d ''message'' = Some m \<longrightarrow>
            make_request X (Inr r) polls = (Some (Inl (http_error r (fstr X m))), [])) \<and>
         (\<forall>d s. json_body r = Some (JObj d) \<and> map_of d ''message'' = Some (JStr s) \<longrightarrow>
            make_request X (Inr r) polls = (Some (Inl (http_error r s)), [])) \<and>
         (\<forall>d. json_body r = Some (JObj d) \<and> map_of d ''message'' = None \<longrightarrow>
            make_request X (Inr r) polls = (Some (Inl (http_error r ''Unknown error'')), [])) \<and>
         (json_body r = None \<longrightarrow>
            make_request X (Inr r) polls = (Some (Inl (http_error r (body_text r))), []))"
proof -
  have raised: "make_request X (Inr r) polls =
                  (Some (Inl (handle_request_error X (HTTPError r))), [])"
    by (rule make_request_http_error [OF assms])
  show ?thesis
    unfolding raised
    by (auto simp: handle_request_error_def http_error_def dict_get_def)
qed

theorem error_message_extraction_witness:
  \<open>400 \<le> status_code unauthorized \<and> status_code unauthorized < 600 \<and>
   json_body unauthorized = Some (JObj [(''message'', JStr ''Invalid API key'')]) \<and>
   map_of [(''message'', JStr ''Invalid API key'')] ''message'' = Some (JStr ''Invalid API key'') \<and>
   make_request X0 (Inr unauthorized) [] =
     (Some (Inl (AuthenticationError ''Error: Invalid API key'')), []) \<and>
   400 \<le> status_code not_found \<and> status_code not_found < 600 \<and>
   json_body not_found = Some (JObj [(''error'', JStr ''no such video'')]) \<and>
   map_of [(''error'', JStr ''no such video'')] ''message'' = None \<and>
   make_request X0 (Inr not_found) [] =
     (Some (Inl (InvalidRequestError ''Invalid request: Unknown error'')), []) \<and>
   400 \<le> status_code bad_gateway \<and> status_code bad_gateway < 600 \<and>
   json_body bad_gateway = None \<and>
   make_request X0 (Inr bad_gateway) [] =
     (Some (Inl (InvalidRequestError ''Invalid request: Bad Gateway'')), [])\<close>
  using error_message_extraction [of unauthorized X0 "[]"]
    error_message_extraction [of not_found X0 "[]"]
    error_message_extraction [of bad_gateway X0 "[]"]
  by (simp add: unauthorized_def not_found_def bad_gateway_def http_error_def)

text \<open>
  A JSON object without a \<open>message\<close> field: the raw body text is at hand, and the message
  is the generic string all the same.
\<close>

theorem message_precedence_counterexample:
  \<open>map_of [(''error'', JStr ''no such video'')] ''message'' = None \<and>
   json_body not_found = Some (JObj [(''error'', JStr ''no such video'')]) \<and>
   body_text not_found = ''{"error": "no such video"}'' \<and>
   make_request X0 (Inr not_found) [] =
     (Some (Inl (InvalidRequestError ''Invalid request: Unknown error'')), [])\<close>
  by (simp add: make_request_def raise_for_status_def except_RequestException_def
        handle_request_error_def not_found_def dict_get_def)

subsection \<open>Asynchronous jobs\<close>

text \<open>
  C5. An envelope with status \<open>processing\<close> and request type \<open>async\<close> makes the interpreter
  return \<^verbatim>\<open>None\<close> at once, whatever the polling endpoint would have answered: no request is
  issued. The request call hands that result on whenever the response reached the
  interpreter, that is, whenever \<^verbatim>\<open>raise_for_status\<close> did not raise.
\<close>

theorem async_returns_null:
  assumes "json_body response = Some (JObj env)"
    and "dict_get env ''status'' JNull = JStr (processing X)"
    and "dict_get env ''request_type'' (JStr ''sync'') = JStr ''async''"
  shows "parse_response X response polls = (Some (Inr JNull), []) \<and>
         (raise_for_status response = None \<longrightarrow>
            make_request X (Inr response) polls = (Some (Inr JNull), []))"
proof -
  have p: "parse_response X response polls = (Some (Inr JNull), [])"
    by (rule parse_response_async [OF assms])
  show ?thesis using p make_request_keeps [OF _ p] by simp
qed

theorem async_returns_null_witness:
  "json_body (answer 200 (JObj async_envelope)) = Some (JObj async_envelope) \<and>
   dict_get async_envelope ''status'' JNull = JStr (processing X0) \<and>
   dict_get async_envelope ''request_type'' (JStr ''sync'') = JStr ''async'' \<and>
   raise_for_status (answer 200 (JObj async_envelope)) = None \<and>
   parse_response X0 (answer 200 (JObj async_envelope)) [(0, done_reply)] = (Some (Inr JNull), []) \<and>
   make_request X0 (Inr (answer 200 (JObj async_envelope))) [(0, done_reply)] = (Some (Inr JNull), [])"
  using async_returns_null [of "answer 200 (JObj async_envelope)" async_envelope X0 "[(0, done_reply)]"]
  by (simp add: answer_def async_envelope_def X0_def dict_get_def raise_for_status_def)

subsection \<open>Polling that ends in failure\<close>

text \<open>
  C6 (as amended). When polling stops at a reply whose status is not pending, the envelope
  read is the reply's \<open>response\<close> field when this is truthy and the reply itself otherwise;
  when that envelope is an object whose \<open>success\<close> is falsy, the call raises an
  \<open>InvalidRequestError\<close> whose message is \<open>Invalid request: \<close> followed by that envelope's
  \<open>message\<close> field.
\<close>

theorem polling_failure_raises:
  assumes "json_body response = Some (JObj env)"
    and "dict_get env ''status'' JNull = JStr (processing X)"
    and "dict_get env ''request_type'' (JStr ''sync'') = JStr ''sync''"
    and "dict_get env ''data'' JNull = JObj d"
    and "dict_get d ''output_url'' JNull = U"
    and "\<forall>a \<in> set early. fst a < max_time \<and> reports_pending X (snd a)"
    and "json_body tr = Some (JObj tb)"
    and "dict_get tb ''status'' JNull \<noteq> JStr (in_progress X)"
    and "dict_get tb ''status'' JNull \<noteq> JStr (processing X)"
    and "(if truthy (dict_get tb ''response'' JNull)
          then dict_get tb ''response'' JNull else JObj tb) = JObj eff"
    and "\<not> truthy (dict_get eff ''success'' JNull)"
    and "raise_for_status response = None"
  shows "make_request X (Inr response) (early @ (t, Inr tr) # rest) =
           (Some (Inl (InvalidRequestError
                    (''Invalid request: '' @ fstr X (dict_get eff ''message'' JNull)))),
            replicate (Suc (length early)) U)"
proof -
  have out: "get_output_body X (Inr tr) = Inr (JObj eff)"
    using get_output_body_terminal [OF assms(7-9)] assms(10) by simp
  have "get_output X U (early @ (t, Inr tr) # rest) =
          (Some (Inr (JObj eff)), replicate (Suc (length early)) U)"
    by (rule get_output_terminal [OF assms(6) out])
  from parse_response_sync [OF assms(1-5) this]
  have "parse_response X response (early @ (t, Inr tr) # rest) =
          (Some (Inl (InvalidRequestError
                   (''Invalid request: '' @ fstr X (dict_get eff ''message'' JNull)))),
           replicate (Suc (length early)) U)"
    using assms(11) by (simp add: success_or_raise_object)
  from make_request_keeps [OF assms(12) this] show ?thesis by simp
qed

theorem polling_failure_raises_witness:
  "json_body (answer 200 (JObj sync_envelope)) = Some (JObj sync_envelope) \<and>
   dict_get sync_envelope ''status'' JNull = JStr (processing X0) \<and>
   dict_get sync_envelope ''request_type'' (JStr ''sync'') = JStr ''sync'' \<and>
   0 < max_time \<and> reports_pending X0 pending_reply \<and>
   \<not> truthy (dict_get failed_body ''response'' JNull) \<and>
   \<not> truthy (dict_get failed_body ''success'' JNull) \<and>
   raise_for_status (answer 200 (JObj sync_envelope)) = None \<and>
   make_request X0 (Inr (answer 200 (JObj sync_envelope)))
     [(0, pending_reply), (2, Inr (answer 200 (JObj failed_body)))] =
     (Some (Inl (InvalidRequestError ''Invalid request: no audio track'')),
      replicate 2 (JStr ''https://api.example/async/42''))"
  using polling_failure_raises
    [of "answer 200 (JObj sync_envelope)" sync_envelope X0
        "[(''output_url'', JStr ''https://api.example/async/42'')]"
        "JStr ''https://api.example/async/42''"
        "[(0, pending_reply)]"
        "answer 200 (JObj failed_body)" failed_body failed_body 2 "[]"]
  by (simp add: answer_def sync_envelope_def X0_def dict_get_def max_time_def pending_reply_def
        reports_pending_def failed_body_def raise_for_status_def numeral_2_eq_2)

text \<open>
  A terminal reply with \<open>success = false\<close> and a \<open>message\<close>, which also has a \<open>response\<close>
  field reporting success: the call returns the \<open>data\<close> of that field and raises nothing.
\<close>

theorem polling_failure_counterexample:
  "dict_get wrapped_failure ''status'' JNull = JStr ''done'' \<and>
   dict_get wrapped_failure ''success'' JNull = JBool False \<and>
   make_request X0 (Inr (answer 200 (JObj sync_envelope)))
     [(0, pending_reply), (2, Inr (answer 200 (JObj wrapped_failure)))] =
     (Some (Inr (JObj [(''id'', JNum 2)])),
      [JStr ''https://api.example/async/42'', JStr ''https://api.example/async/42''])"
  by (simp add: make_request_def parse_response_def parse_response_try_def success_or_raise_def
        get_output_body_def raise_for_status_def except_RequestException_def
        answer_def sync_envelope_def X0_def dict_get_def max_time_def pending_reply_def
        wrapped_failure_def)

subsection \<open>Direct answers\<close>

text \<open>
  C7. An envelope with \<open>success = true\<close> and a status other than \<open>processing\<close> makes the
  request call return the envelope's \<open>data\<close> as it is (\<^verbatim>\<open>None\<close> when there is none), and no
  polling request is issued.
\<close>

theorem direct_success_returns_data:
  assumes "json_body response = Some (JObj env)"
    and "dict_get env ''success'' JNull = JBool True"
    and "dict_get env ''status'' JNull \<noteq> JStr (processing X)"
  shows "parse_response X response polls = (Some (Inr (dict_get env ''data'' JNull)), []) \<and>
         (raise_for_status response = None \<longrightarrow>
            make_request X (Inr response) polls = (Some (Inr (dict_get env ''data'' JNull)), []))"
proof -
  have p: "parse_response X response polls = (Some (Inr (dict_get env ''data'' JNull)), [])"
    using parse_response_direct [OF assms(1), of X polls] assms(2,3)
    by (simp add: success_or_raise_object)
  show ?thesis using p make_request_keeps [OF _ p] by simp
qed

theorem direct_success_returns_data_witness:
  "json_body (answer 200 (JObj done_body)) = Some (JObj done_body) \<and>
   dict_get done_body ''success'' JNull = JBool True \<and>
   dict_get done_body ''status'' JNull \<noteq> JStr (processing X0) \<and>
   raise_for_status (answer 200 (JObj done_body)) = None \<and>
   parse_response X0 (answer 200 (JObj done_body)) [(0, done_reply)] =
     (Some (Inr (JObj [(''id'', JNum 1)])), []) \<and>
   make_request X0 (Inr (answer 200 (JObj done_body))) [(0, done_reply)] =
     (Some (Inr (JObj [(''id'', JNum 1)])), [])"
  using direct_success_returns_data [of "answer 200 (JObj done_body)" done_body X0 "[(0, done_reply)]"]
  by (simp add: answer_def done_body_def X0_def dict_get_def raise_for_status_def)

subsection \<open>The precondition of upload\<close>

text \<open>
  C8. \<^verbatim>\<open>upload\<close> raises a \<open>VideodbError\<close> when neither \<open>file_path\<close> nor \<open>url\<close> is given and when
  both are, and in either case no request has been issued. Given is what the source tests:
  an argument that is not \<^verbatim>\<open>None\<close> and not the empty string.
\<close>

theorem upload_precondition:
  "(\<not> truthy_opt file_path \<and> \<not> truthy_opt url \<longrightarrow>
      upload K conn W file_path url media_type name description callback_url =
        (Inl (VideodbError ''Either file_path or url is required''), [])) \<and>
   (truthy_opt file_path \<and> truthy_opt url \<longrightarrow>
      upload K conn W file_path url media_type name description callback_url =
        (Inl (VideodbError ''Only one of file_path or url is allowed''), []))"
  by (simp add: upload_def)

theorem upload_precondition_witness:
  "\<not> truthy_opt None \<and>
   upload K0 conn0 W0 None None None None None None =
     (Inl (VideodbError ''Either file_path or url is required''), []) \<and>
   truthy_opt (Some ''clips/intro.mp4'') \<and> truthy_opt (Some ''https://cdn.example/intro.mp4'') \<and>
   upload K0 conn0 W0 (Some ''clips/intro.mp4'') (Some ''https://cdn.example/intro.mp4'')
       None None None None =
     (Inl (VideodbError ''Only one of file_path or url is allowed''), [])"
  using upload_precondition [of None None K0 conn0 W0 None None None None]
    upload_precondition [of "Some ''clips/intro.mp4''" "Some ''https://cdn.example/intro.mp4''"
      K0 conn0 W0 None None None None]
  by simp

subsection \<open>Answers without data\<close>

text \<open>
  C9. An envelope with \<open>success = true\<close>, a status other than \<open>processing\<close> and no \<open>data\<close>
  field makes the request call return \<^verbatim>\<open>None\<close>, and this is the very result of a call whose
  envelope is an asynchronous acknowledgement: the requests issued are the same too (none).
\<close>

theorem missing_data_returns_null:
  assumes "json_body response = Some (JObj env)"
    and "dict_get env ''success'' JNull = JBool True"
    and "dict_get env ''status'' JNull \<noteq> JStr (processing X)"
    and "map_of env ''data'' = None"
    and "raise_for_status response = None"
    and "json_body response' = Some (JObj env')"
    and "dict_get env' ''status'' JNull = JStr (processing X)"
    and "dict_get env' ''request_type'' (JStr ''sync'') = JStr ''async''"
    and "raise_for_status response' = None"
  shows "make_request X (Inr response) polls = (Some (Inr JNull), []) \<and>
         make_request X (Inr response) polls = make_request X (Inr response') polls'"
proof -
  have "dict_get env ''data'' JNull = JNull"
    using assms(4) by (simp add: dict_get_def)
  then have "parse_response X response polls = (Some (Inr JNull), [])"
    using parse_response_direct [OF assms(1), of X polls] assms(2,3)
    by (simp add: success_or_raise_object)
  from make_request_keeps [OF assms(5) this]
  have direct: "make_request X (Inr response) polls = (Some (Inr JNull), [])" by simp
  have "parse_response X response' polls' = (Some (Inr JNull), [])"
    by (rule parse_response_async [OF assms(6-8)])
  from make_request_keeps [OF assms(9) this]
  have "make_request X (Inr response') polls' = (Some (Inr JNull), [])" by simp
  with direct show ?thesis by simp
qed

theorem missing_data_returns_null_witness:
  "json_body (answer 200 (JObj empty_success)) = Some (JObj empty_success) \<and>
   dict_get empty_success ''success'' JNull = JBool True \<and>
   dict_get empty_success ''status'' JNull \<noteq> JStr (processing X0) \<and>
   map_of empty_success ''data'' = None \<and>
   raise_for_status (answer 200 (JObj empty_success)) = None \<and>
   dict_get async_envelope ''status'' JNull = JStr (processing X0) \<and>
   dict_get async_envelope ''request_type'' (JStr ''sync'') = JStr ''async'' \<and>
   make_request X0 (Inr (answer 200 (JObj empty_success))) [] = (Some (Inr JNull), []) \<and>
   make_request X0 (Inr (answer 200 (JObj empty_success))) [] =
     make_request X0 (Inr (answer 200 (JObj async_envelope))) [(0, done_reply)]"
  using missing_data_returns_null
    [of "answer 200 (JObj empty_success)" empty_success X0
        "answer 200 (JObj async_envelope)" async_envelope "[]" "[(0, done_reply)]"]
  by (simp add: answer_def empty_success_def async_envelope_def X0_def dict_get_def
        raise_for_status_def make_request_def parse_response_def parse_response_try_def)

subsection \<open>Other request types\<close>

text \<open>
  C10. An envelope with status \<open>processing\<close> whose \<open>request_type\<close> field is present and is
  neither \<open>sync\<close> nor \<open>async\<close> is handled by the success check: the call returns \<open>data\<close> when
  \<open>success\<close> is truthy (for a boolean: true) and raises an \<open>InvalidRequestError\<close> with the
  envelope's \<open>message\<close> otherwise. It neither returns \<^verbatim>\<open>None\<close> for the sake of the status nor
  issues a polling request.
\<close>

theorem unknown_request_type_falls_through:
  assumes "json_body response = Some (JObj env)"
    and "dict_get env ''status'' JNull = JStr (processing X)"
    and "map_of env ''request_type'' = Some rt"
    and "rt \<noteq> JStr ''sync''" and "rt \<noteq> JStr ''async''"
  shows "parse_response X response polls =
           (Some (if truthy (dict_get env ''success'' JNull)
                  then Inr (dict_get env ''data'' JNull)
                  else Inl (InvalidRequestError
                         (''Invalid request: '' @ fstr X (dict_get env ''message'' JNull)))), []) \<and>
         (raise_for_status response = None \<longrightarrow>
            make_request X (Inr response) polls = parse_response X response polls)"
proof -
  have rt: "dict_get env ''request_type'' (JStr ''sync'') = rt"
    using assms(3) by (simp add: dict_get_def)
  have p: "parse_response X response polls = (Some (success_or_raise X (JObj env)), [])"
    using parse_response_direct [OF assms(1), of X polls] rt assms(4,5) by simp
  have "make_request X (Inr response) polls = parse_response X response polls"
    if "raise_for_status response = None"
    using make_request_keeps [OF that p] p by (simp add: success_or_raise_no_RequestException)
  with p show ?thesis by (simp add: success_or_raise_object)
qed

theorem unknown_request_type_falls_through_witness:
  "json_body (answer 200 (JObj batch_envelope)) = Some (JObj batch_envelope) \<and>
   dict_get batch_envelope ''status'' JNull = JStr (processing X0) \<and>
   map_of batch_envelope ''request_type'' = Some (JStr ''batch'') \<and>
   JStr ''batch'' \<noteq> JStr ''sync'' \<and> JStr ''batch'' \<noteq> JStr ''async'' \<and>
   \<not> truthy (dict_get batch_envelope ''success'' JNull) \<and>
   raise_for_status (answer 200 (JObj batch_envelope)) = None \<and>
   make_request X0 (Inr (answer 200 (JObj batch_envelope))) [(0, done_reply)] =
     (Some (Inl (InvalidRequestError ''Invalid request: queued'')), [])"
  using unknown_request_type_falls_through
    [of "answer 200 (JObj batch_envelope)" batch_envelope X0 "JStr ''batch''" "[(0, done_reply)]"]
  by (simp add: answer_def batch_envelope_def X0_def dict_get_def raise_for_status_def)

end
